theory Spec2Isabelle
  imports Complex_Main "HOL-Library.AList"
begin

section \<open>Strings\<close>

text \<open>
  A JavaScript string is modelled as a \<^typ>\<open>string\<close>: a list of code units, restricted to
  the range U+0000..U+00FF that \<^typ>\<open>char\<close> covers.
\<close>

definition toLowerCase_char :: "char \<Rightarrow> char" where
  \<comment> \<open>\<open>String.prototype.toLowerCase\<close> on one code unit below U+0100: the letters A..Z and
      the Latin-1 capitals U+00C0..U+00DE (without the multiplication sign U+00D7) move up
      by 32, every other code unit is kept.\<close>
  "toLowerCase_char c =
     (let n = (of_char c :: nat)
      in if (65 \<le> n \<and> n \<le> 90) \<or> (192 \<le> n \<and> n \<le> 222 \<and> n \<noteq> 215)
         then char_of (n + 32) else c)"

definition toLowerCase :: "string \<Rightarrow> string" where
  "toLowerCase s = map toLowerCase_char s"

fun split_when :: "(char \<Rightarrow> bool) \<Rightarrow> string \<Rightarrow> string list" where
  \<comment> \<open>\<open>s.split(sep)\<close> for a separator of one code unit, the separator given as a predicate:
      every separator ends a segment, so the empty string gives one empty segment and
      \<open>n\<close> separators give \<open>n + 1\<close> segments.\<close>
  "split_when p [] = [[]]"
| "split_when p (c # cs) =
     (if p c then [] # split_when p cs
      else (case split_when p cs of
              w # ws \<Rightarrow> (c # w) # ws
            | [] \<Rightarrow> [[c]]))"

definition split :: "char \<Rightarrow> string \<Rightarrow> string list" where
  "split sep s = split_when (\<lambda>c. c = sep) s"

definition isWhitespace :: "char \<Rightarrow> bool" where
  \<comment> \<open>The white space and line terminator code units below U+0100 (ECMAScript
      \<open>WhiteSpace\<close> and \<open>LineTerminator\<close>): TAB, LF, VT, FF, CR, SP, NBSP.\<close>
  "isWhitespace c = (of_char c \<in> {9, 10, 11, 12, 13, 32, 160 :: nat})"

definition trim :: "string \<Rightarrow> string" where
  \<comment> \<open>\<open>String.prototype.trim\<close>: white space removed at both ends.\<close>
  "trim s = rev (dropWhile isWhitespace (rev (dropWhile isWhitespace s)))"

section \<open>The word-overlap similarity scorer\<close>

text \<open>
  A JavaScript \<open>Map\<close> keeps its keys in insertion order and \<open>forEach\<close> visits them in
  that order, so the word map is an association list: \<open>set\<close> on a key already present
  replaces the value in place, on a new key it appends the pair.
\<close>

type_synonym wordMap = "(string \<times> nat) list"

definition Map_get :: "wordMap \<Rightarrow> string \<Rightarrow> nat option" where
  \<comment> \<open>\<open>wordMap.get(word)\<close>; \<open>None\<close> is \<open>undefined\<close>.\<close>
  "Map_get m word = map_of m word"

definition Map_has :: "wordMap \<Rightarrow> string \<Rightarrow> bool" where
  "Map_has m word = (word \<in> fst ` set m)"

definition Map_set :: "wordMap \<Rightarrow> string \<Rightarrow> nat \<Rightarrow> wordMap" where
  "Map_set m word v = AList.update word v m"

definition or_zero :: "nat option \<Rightarrow> nat" where
  \<comment> \<open>\<open>x || 0\<close> on a count: \<open>undefined\<close> and \<open>0\<close> are falsy and give \<open>0\<close>.\<close>
  "or_zero x = (case x of None \<Rightarrow> 0 | Some c \<Rightarrow> if c = 0 then 0 else c)"

definition createWordMap :: "string list \<Rightarrow> wordMap" where
  "createWordMap words =
     foldl (\<lambda>wordMap word. Map_set wordMap word (or_zero (Map_get wordMap word) + 1)) [] words"

definition commonWords :: "wordMap \<Rightarrow> wordMap \<Rightarrow> nat" where
  \<comment> \<open>The \<open>msgWordMap.forEach\<close> loop, accumulating into \<open>commonWords\<close> from 0.\<close>
  "commonWords msgWordMap promptWordMap =
     foldl (\<lambda>acc (word, count).
              if Map_has promptWordMap word
              then acc + min count (or_zero (Map_get promptWordMap word))
              else acc)
           0 msgWordMap"

definition words_of :: "string \<Rightarrow> string list" where
  \<comment> \<open>\<open>s.toLowerCase().split(" ").filter(word => word.length > 0)\<close>\<close>
  "words_of s = filter (\<lambda>word. length word > 0) (split (CHR '' '') (toLowerCase s))"

definition exceeds_threshold :: "nat \<Rightarrow> nat \<Rightarrow> bool" where
  \<comment> \<open>\<open>c / m > 0.6\<close> on two counts. \<open>0 / 0\<close> is \<open>NaN\<close>, and \<open>NaN > 0.6\<close> is false. For
      \<open>m > 0\<close> the double quotient is the correctly rounded \<open>c / m\<close> and the literal the
      correctly rounded \<open>3 / 5\<close>, so for counts of any string that fits in memory the
      comparison of the doubles is the comparison of the exact quotients.\<close>
  "exceeds_threshold c m = (if m = 0 then False else (of_nat c / of_nat m :: rat) > 6 / 10)"

definition analyzeMessageSimilarity :: "string \<Rightarrow> string \<Rightarrow> bool" where
  "analyzeMessageSimilarity msg prompt =
     (if msg = [] then False
      else
        let msgWords = words_of msg;
            promptWords = words_of prompt;
            msgWordMap = createWordMap msgWords;
            promptWordMap = createWordMap promptWords
        in exceeds_threshold (commonWords msgWordMap promptWordMap)
                             (max (length msgWords) (length promptWords)))"

subsection \<open>The reference definition of the specification\<close>

text \<open>
  The scorer as the specification words it, with the tokenizer as a parameter: the
  token lists \<open>A\<close> and \<open>B\<close>, their counts \<^term>\<open>count_list A t\<close>, the sum of the smaller
  count over the shared tokens, and the quotient by the larger number of tokens. Two
  strings without tokens have no quotient, and nothing exceeds the threshold then.
\<close>

definition tokens_whitespace :: "string \<Rightarrow> string list" where
  \<comment> \<open>lower-cased and cut at every white space code unit, empty tokens dropped\<close>
  "tokens_whitespace s = filter (\<lambda>t. t \<noteq> []) (split_when isWhitespace (toLowerCase s))"

definition tokens_space :: "string \<Rightarrow> string list" where
  \<comment> \<open>lower-cased and cut at the space U+0020 only, empty tokens dropped\<close>
  "tokens_space s = filter (\<lambda>t. t \<noteq> []) (split_when (\<lambda>c. c = CHR '' '') (toLowerCase s))"

definition commonWords_spec :: "string list \<Rightarrow> string list \<Rightarrow> nat" where
  "commonWords_spec A B = (\<Sum>t \<in> set A \<inter> set B. min (count_list A t) (count_list B t))"

definition isRepetitive_spec :: "(string \<Rightarrow> string list) \<Rightarrow> string \<Rightarrow> string \<Rightarrow> bool" where
  "isRepetitive_spec tokenize candidate reference =
     (let A = tokenize candidate; B = tokenize reference; m = max (length A) (length B)
      in m > 0 \<and> (of_nat (commonWords_spec A B) / of_nat m :: rat) > 6 / 10)"

section \<open>The chat route\<close>

subsection \<open>Data\<close>

datatype error = Error string

datatype Role = Role_user | Role_system

record Message =
  role :: Role
  content :: string

record Companion =
  companion_id :: string
  name :: string
  instructions :: string
  seed :: string
  messages :: "Message list"
    \<comment> \<open>the included turns of this user, newest first, at most 10\<close>

record User =
  user_id :: string
  firstName :: "string option"

record RateLimitResult =
  success :: bool

record Document =
  pageContent :: string

record CompanionKey =
  companionName :: string
  userId :: string
  modelName :: string

record ReplicateInput =
  input_prompt :: string
  temperature :: rat
  max_tokens :: nat
  top_p :: rat
  presence_penalty :: rat

definition TIMEOUT_MS :: nat where
  "TIMEOUT_MS = 30000"

definition MAX_LENGTH :: nat where
  "MAX_LENGTH = 512"

definition MODELS_default :: string where
  "MODELS_default =
     ''a16z-infra/llama-2-13b-chat:df7690f1994d94e96ad9d568eac121aecf50684a0b0963b25a41cc40061269e5''"

datatype Response =
    NextResponse string nat
  | StreamingTextResponse string

fun status :: "Response \<Rightarrow> nat" where
  "status (NextResponse body code) = code"
| "status (StreamingTextResponse body) = 200"

subsection \<open>The world outside the handler\<close>

text \<open>
  What the generation call does: the promise of \<open>replicate.run\<close> resolves or rejects at
  some number of milliseconds after the handler was entered, or never settles. The text of
  \<open>Resolves\<close> is \<open>String(modelResponse)\<close>.
\<close>

datatype generation =
    Resolves nat string
  | Rejects nat error
  | Pending

text \<open>
  One request and the outcome of every call the handler makes while serving it. A thrown
  or rejected call is \<open>Inl\<close>. The request body is taken to carry a string \<open>prompt\<close>.
  Of the records that \<open>readLatestHistory\<close> returns only the length is read.
\<close>

record request =
  url :: string
  chatId_param :: string
  json :: "error + string"

record world =
  currentUser_result :: "error + User option"
  ratelimit_result :: "error + RateLimitResult"
  findUnique_result :: "error + Companion option"
  getInstance_result :: "error + unit"
  message_create_result :: "error + unit"
  readLatestHistory_result :: "error + string list"
  vectorSearch_result :: "error + Document list option"
  seedChatHistory_result :: "error + unit"
  replicate_run_result :: generation
  writeToHistory_result :: "error + unit"
  companion_update_result :: "error + unit"

text \<open>The calls the handler makes, in program order.\<close>

datatype effect =
    SetTimeout nat
  | ClearTimeout
  | ControllerAbort
  | Ratelimit string
  | CompanionFindUnique string string nat
  | GetInstance
  | MessageCreate string Role string string
  | ReadLatestHistory CompanionKey
  | VectorSearch string string
  | SeedChatHistory string string CompanionKey
  | ReplicateRun string ReplicateInput
  | WriteToHistory string CompanionKey
  | CompanionUpdateCreateMessage string string Role string
  | ConsoleError string error

datatype outcome =
    Returns Response
  | Throws error
  | Never

definition promise_all2 :: "error + 'a \<Rightarrow> error + 'b \<Rightarrow> error + ('a \<times> 'b)" where
  \<comment> \<open>\<open>await Promise.all([a, b])\<close>: both calls have been started; the join rejects when one
      of them rejects (with the error of the first in the array when both do).\<close>
  "promise_all2 a b =
     (case a of Inl e \<Rightarrow> Inl e
      | Inr x \<Rightarrow> (case b of Inl e \<Rightarrow> Inl e | Inr y \<Rightarrow> Inr (x, y)))"

definition promise_all3 ::
  "error + 'a \<Rightarrow> error + 'b \<Rightarrow> error + 'c \<Rightarrow> error + ('a \<times> 'b \<times> 'c)" where
  "promise_all3 a b c =
     (case a of Inl e \<Rightarrow> Inl e
      | Inr x \<Rightarrow> (case promise_all2 b c of Inl e \<Rightarrow> Inl e | Inr yz \<Rightarrow> Inr (x, yz)))"

definition after :: "effect list \<Rightarrow> outcome \<times> effect list \<Rightarrow> outcome \<times> effect list" where
  \<comment> \<open>the rest of the handler, run after the calls \<open>pre\<close>\<close>
  "after pre rest = (fst rest, pre @ snd rest)"

fun join :: "string \<Rightarrow> string list \<Rightarrow> string" where
  "join sep [] = []"
| "join sep [x] = x"
| "join sep (x # y # ys) = x @ sep @ join sep (y # ys)"

subsection \<open>The handler\<close>

definition finalResponse_of :: "string \<Rightarrow> string" where
  \<comment> \<open>\<open>String(modelResponse).split("\n")[0]\<close>. \<open>split\<close> never returns the empty array;
      \<open>undefined\<close> would have no length above 1 and be streamed as the empty text.\<close>
  "finalResponse_of modelResponse =
     (case split (CHR 0x0A) modelResponse of [] \<Rightarrow> [] | first # rest \<Rightarrow> first)"

definition messageHistory_of :: "Companion \<Rightarrow> Message list \<Rightarrow> string" where
  "messageHistory_of companion recentMessages =
     join ''\<newline>''
       (rev (map (\<lambda>msg. (if role msg = Role_user then ''User'' else name companion)
                        @ '': '' @ content msg)
                 recentMessages))"

definition relevantHistory_of :: "Document list option \<Rightarrow> string" where
  \<comment> \<open>\<open>similarDocs?.length ? similarDocs.map(doc => doc.pageContent).join("\n") : ""\<close>\<close>
  "relevantHistory_of similarDocs =
     (case similarDocs of
        None \<Rightarrow> []
      | Some docs \<Rightarrow> if length docs \<noteq> 0 then join ''\<newline>'' (map pageContent docs) else [])"

definition prompt_template :: "Companion \<Rightarrow> string \<Rightarrow> string \<Rightarrow> string" where
  \<comment> \<open>the template literal passed as \<open>input.prompt\<close>\<close>
  "prompt_template companion prompt messageHistory =
     ''<|system|>\<newline>You are '' @ name companion @ ''. Focus on: '' @ prompt @ ''\<newline>''
     @ instructions companion @ ''\<newline>Recent context:\<newline>''
     @ messageHistory @ ''\<newline>Current question: '' @ prompt @ ''\<newline><|assistant|>''"

definition timer_callback :: "nat \<Rightarrow> effect list" where
  \<comment> \<open>The callback of the timer set at entry runs \<open>controller.abort()\<close> when the handler is
      still waiting at \<open>TIMEOUT_MS\<close>. The signal of the controller is passed to no call.\<close>
  "timer_callback settled_at = (if TIMEOUT_MS \<le> settled_at then [ControllerAbort] else [])"

definition POST_persist ::
  "string \<Rightarrow> User \<Rightarrow> string \<Rightarrow> CompanionKey \<Rightarrow> string \<Rightarrow> world \<Rightarrow> outcome \<times> effect list" where
  \<comment> \<open>from \<open>const finalResponse\<close> to the return of the streamed response\<close>
  "POST_persist chatId user prompt companionKey modelResponse w =
     (let finalResponse = finalResponse_of modelResponse
      in if length finalResponse > 1
         then
           (let writes =
                  [WriteToHistory (''User: '' @ prompt @ ''\<newline>'' @ trim finalResponse) companionKey,
                   CompanionUpdateCreateMessage chatId (trim finalResponse) Role_system (user_id user)]
            in case promise_all2 (writeToHistory_result w) (companion_update_result w) of
                 Inl e \<Rightarrow> (Throws e, writes)
               | Inr done \<Rightarrow> (Returns (StreamingTextResponse finalResponse), writes))
         else (Returns (StreamingTextResponse finalResponse), []))"

definition POST_generate ::
  "string \<Rightarrow> User \<Rightarrow> string \<Rightarrow> Companion \<Rightarrow> Message list \<Rightarrow> Document list option
     \<Rightarrow> CompanionKey \<Rightarrow> world \<Rightarrow> outcome \<times> effect list" where
  \<comment> \<open>from \<open>const messageHistory\<close> to the end of the \<open>replicate.run\<close> call\<close>
  "POST_generate chatId user prompt companion recentMessages similarDocs companionKey w =
     (let messageHistory = messageHistory_of companion recentMessages;
          relevantHistory = relevantHistory_of similarDocs
      in case message_create_result w of
           Inl e \<Rightarrow> (Throws e, [])
         | Inr created \<Rightarrow>
             (let run = ReplicateRun MODELS_default
                          \<lparr>input_prompt = prompt_template companion prompt messageHistory,
                           temperature = 98 / 100,
                           max_tokens = MAX_LENGTH,
                           top_p = 95 / 100,
                           presence_penalty = 18 / 10\<rparr>
              in case replicate_run_result w of
                   Pending \<Rightarrow> (Never, [run, ControllerAbort])
                 | Rejects settled_at e \<Rightarrow> (Throws e, run # timer_callback settled_at)
                 | Resolves settled_at modelResponse \<Rightarrow>
                     after (run # timer_callback settled_at)
                       (POST_persist chatId user prompt companionKey modelResponse w)))"

definition POST_memory ::
  "bool \<Rightarrow> string \<Rightarrow> string \<Rightarrow> User \<Rightarrow> string \<Rightarrow> Companion \<Rightarrow> Message list \<Rightarrow> world
     \<Rightarrow> outcome \<times> effect list" where
  \<comment> \<open>from \<open>const companionKey\<close> to the end of the conditional seeding; \<open>isRepetitive\<close> and
      \<open>lastResponse\<close> are in scope from here on\<close>
  "POST_memory isRepetitive lastResponse chatId user prompt companion recentMessages w =
     (let companionKey = \<lparr>companionName = companion_id companion,
                           userId = user_id user,
                           modelName = ''meta/meta-llama-3-8b-instruct''\<rparr>;
          reads = [ReadLatestHistory companionKey,
                   VectorSearch (companion_id companion) (companion_id companion @ ''.txt'')]
      in case promise_all2 (readLatestHistory_result w) (vectorSearch_result w) of
           Inl e \<Rightarrow> (Throws e, reads)
         | Inr (records, similarDocs) \<Rightarrow>
             if length records = 0
             then
               (let seeding = SeedChatHistory (seed companion) ''\<newline>\<newline>'' companionKey
                in case seedChatHistory_result w of
                     Inl e \<Rightarrow> (Throws e, reads @ [seeding])
                   | Inr seeded \<Rightarrow>
                       after (reads @ [seeding])
                         (POST_generate chatId user prompt companion recentMessages similarDocs
                            companionKey w))
             else
               after reads
                 (POST_generate chatId user prompt companion recentMessages similarDocs
                    companionKey w))"

definition POST_admitted ::
  "string \<Rightarrow> User \<Rightarrow> string \<Rightarrow> Companion \<Rightarrow> world \<Rightarrow> outcome \<times> effect list" where
  \<comment> \<open>from \<open>const messagePromise\<close> to \<open>const lastResponse\<close>: the write of the user turn is
      started and its promise kept; it is awaited in \<open>POST_generate\<close>\<close>
  "POST_admitted chatId user prompt companion w =
     (let messagePromise = MessageCreate prompt Role_user (user_id user) (companion_id companion);
          recentMessages = messages companion;
          isRepetitive = list_ex (\<lambda>msg. analyzeMessageSimilarity (content msg) prompt) recentMessages;
          lastResponse = (case recentMessages of [] \<Rightarrow> [] | newest # older \<Rightarrow> content newest)
      in after [messagePromise]
           (POST_memory isRepetitive lastResponse chatId user prompt companion recentMessages w))"

definition authenticated :: "User option \<Rightarrow> User option" where
  \<comment> \<open>the user unless \<open>!user?.firstName || !user?.id\<close>: \<open>null\<close> and the empty string are falsy\<close>
  "authenticated u =
     (case u of
        None \<Rightarrow> None
      | Some user \<Rightarrow>
          if firstName user = None \<or> firstName user = Some [] \<or> user_id user = []
          then None else Some user)"

definition POST_try :: "request \<Rightarrow> world \<Rightarrow> outcome \<times> effect list" where
  \<comment> \<open>the \<open>try\<close> block up to the two admission gates\<close>
  "POST_try request w =
     (let chatId = chatId_param request
      in case json request of
           Inl e \<Rightarrow> (Throws e, [])
         | Inr prompt \<Rightarrow>
             (case currentUser_result w of
                Inl e \<Rightarrow> (Throws e, [])
              | Inr u \<Rightarrow>
                  (case authenticated u of
                     None \<Rightarrow> (Returns (NextResponse ''Unauthorized'' 401), [])
                   | Some user \<Rightarrow>
                       (let loads = [Ratelimit (url request @ ''-'' @ user_id user),
                                     CompanionFindUnique chatId (user_id user) 10,
                                     GetInstance]
                        in case promise_all3 (ratelimit_result w) (findUnique_result w)
                                  (getInstance_result w) of
                             Inl e \<Rightarrow> (Throws e, loads)
                           | Inr (rateLimitResult, companion, memoryManager) \<Rightarrow>
                               if \<not> success rateLimitResult
                               then (Returns (NextResponse ''Rate limit exceeded'' 429), loads)
                               else
                                 (case companion of
                                    None \<Rightarrow> (Returns (NextResponse ''Companion not found'' 404), loads)
                                  | Some found \<Rightarrow>
                                      after loads (POST_admitted chatId user prompt found w))))))"

definition POST :: "request \<Rightarrow> world \<Rightarrow> Response option \<times> effect list" where
  \<comment> \<open>The handler: the response it returns (\<open>None\<close> when it never returns) and the calls it
      has made by then. The timer is set before the \<open>try\<close> block; only the \<open>catch\<close> block
      clears it.\<close>
  "POST request w =
     (case POST_try request w of
        (Returns response, effects) \<Rightarrow> (Some response, SetTimeout TIMEOUT_MS # effects)
      | (Throws e, effects) \<Rightarrow>
          (Some (NextResponse ''Internal Error'' 500),
           SetTimeout TIMEOUT_MS # effects @ [ClearTimeout, ConsoleError ''[CHAT_POST]'' e])
      | (Never, effects) \<Rightarrow> (None, SetTimeout TIMEOUT_MS # effects))"

subsection \<open>Reading the calls\<close>

fun generation_prompts :: "effect list \<Rightarrow> string list" where
  \<comment> \<open>the prompts passed to the generation client\<close>
  "generation_prompts [] = []"
| "generation_prompts (ReplicateRun model input # effects) =
     input_prompt input # generation_prompts effects"
| "generation_prompts (other # effects) = generation_prompts effects"

fun is_seeding :: "effect \<Rightarrow> bool" where
  "is_seeding (SeedChatHistory text delimiter key) = True"
| "is_seeding other = False"

fun is_generation :: "effect \<Rightarrow> bool" where
  "is_generation (ReplicateRun model input) = True"
| "is_generation other = False"

fun is_history_read :: "effect \<Rightarrow> bool" where
  "is_history_read (ReadLatestHistory key) = True"
| "is_history_read other = False"

fun is_rate_check :: "effect \<Rightarrow> bool" where
  "is_rate_check (Ratelimit key) = True"
| "is_rate_check other = False"

fun is_write :: "effect \<Rightarrow> bool" where
  \<comment> \<open>a write to the history store or of a turn\<close>
  "is_write (MessageCreate text r uid cid) = True"
| "is_write (SeedChatHistory text delimiter key) = True"
| "is_write (WriteToHistory text key) = True"
| "is_write (CompanionUpdateCreateMessage cid text r uid) = True"
| "is_write other = False"

fun is_reply_write :: "effect \<Rightarrow> bool" where
  \<comment> \<open>the append of the exchange to the history and the creation of the system turn\<close>
  "is_reply_write (WriteToHistory text key) = True"
| "is_reply_write (CompanionUpdateCreateMessage cid text r uid) = True"
| "is_reply_write other = False"

subsection \<open>A request and its world, for the concrete cases\<close>

definition ada :: Companion where
  "ada = \<lparr>companion_id = ''c1'', name = ''Ada'', instructions = ''Be brief.'',
          seed = ''Human: hi\<newline>Ada: hello'',
          messages = [\<lparr>role = Role_system, content = ''I am fine.''\<rparr>,
                      \<lparr>role = Role_user, content = ''How are you?''\<rparr>]\<rparr>"

definition alice :: User where
  "alice = \<lparr>user_id = ''u1'', firstName = Some ''Alice''\<rparr>"

definition ask :: request where
  "ask = \<lparr>url = ''/api/chat/c1'', chatId_param = ''c1'', json = Inr ''What is new?''\<rparr>"

definition calm :: world where
  \<comment> \<open>every call succeeds; the history is not empty and the generation is in time\<close>
  "calm = \<lparr>currentUser_result = Inr (Some alice),
           ratelimit_result = Inr \<lparr>success = True\<rparr>,
           findUnique_result = Inr (Some ada),
           getInstance_result = Inr (),
           message_create_result = Inr (),
           readLatestHistory_result = Inr [''Human: hi''],
           vectorSearch_result = Inr (Some [\<lparr>pageContent = ''Ada wrote the first program.''\<rparr>]),
           seedChatHistory_result = Inr (),
           replicate_run_result = Resolves 1200 ''Hello there\<newline>I am rambling more'',
           writeToHistory_result = Inr (),
           companion_update_result = Inr ()\<rparr>"

subsection \<open>Names for the calls of the handler\<close>

abbreviation loads_of :: "request \<Rightarrow> User \<Rightarrow> effect list" where
  "loads_of request user \<equiv>
     [Ratelimit (url request @ ''-'' @ user_id user),
      CompanionFindUnique (chatId_param request) (user_id user) 10,
      GetInstance]"

abbreviation companionKey_of :: "Companion \<Rightarrow> User \<Rightarrow> CompanionKey" where
  "companionKey_of companion user \<equiv>
     \<lparr>companionName = companion_id companion, userId = user_id user,
      modelName = ''meta/meta-llama-3-8b-instruct''\<rparr>"

abbreviation reads_of :: "Companion \<Rightarrow> User \<Rightarrow> effect list" where
  "reads_of companion user \<equiv>
     [ReadLatestHistory (companionKey_of companion user),
      VectorSearch (companion_id companion) (companion_id companion @ ''.txt'')]"

abbreviation seeding_of :: "Companion \<Rightarrow> User \<Rightarrow> effect" where
  "seeding_of companion user \<equiv>
     SeedChatHistory (seed companion) ''\<newline>\<newline>'' (companionKey_of companion user)"

abbreviation run_of :: "Companion \<Rightarrow> string \<Rightarrow> Message list \<Rightarrow> effect" where
  "run_of companion prompt recentMessages \<equiv>
     ReplicateRun MODELS_default
       \<lparr>input_prompt = prompt_template companion prompt (messageHistory_of companion recentMessages),
        temperature = 98 / 100, max_tokens = MAX_LENGTH, top_p = 95 / 100,
        presence_penalty = 18 / 10\<rparr>"

abbreviation writes_of :: "string \<Rightarrow> User \<Rightarrow> string \<Rightarrow> CompanionKey \<Rightarrow> string \<Rightarrow> effect list" where
  "writes_of chatId user prompt companionKey finalResponse \<equiv>
     [WriteToHistory (''User: '' @ prompt @ ''\<newline>'' @ trim finalResponse) companionKey,
      CompanionUpdateCreateMessage chatId (trim finalResponse) Role_system (user_id user)]"

section \<open>The scorer computes the overlap of the two token multisets\<close>

lemma map_of_createWordMap:
  "map_of (createWordMap ws) w = (if w \<in> set ws then Some (count_list ws w) else None)"
proof (induction ws rule: rev_induct)
  case Nil
  show ?case by (simp add: createWordMap_def)
next
  case (snoc x xs)
  have step: "createWordMap (xs @ [x]) =
      Map_set (createWordMap xs) x (or_zero (Map_get (createWordMap xs) x) + 1)"
    by (simp add: createWordMap_def)
  show ?case
    using snoc
    by (auto simp: step Map_set_def Map_get_def or_zero_def update_conv')
qed

lemma distinct_createWordMap: "distinct (map fst (createWordMap ws))"
proof (induction ws rule: rev_induct)
  case Nil
  show ?case by (simp add: createWordMap_def)
next
  case (snoc x xs)
  have step: "createWordMap (xs @ [x]) =
      Map_set (createWordMap xs) x (or_zero (Map_get (createWordMap xs) x) + 1)"
    by (simp add: createWordMap_def)
  show ?case using snoc by (simp add: step Map_set_def distinct_update)
qed

lemma keys_createWordMap: "fst ` set (createWordMap ws) = set ws"
  using map_of_createWordMap[of ws]
  by (auto simp: dom_map_of_conv_image_fst[symmetric] dom_def split: if_splits)

lemma forEach_as_sum_list:
  "foldl (\<lambda>acc (word, count). if P word then acc + g word count else acc) a al =
     a + sum_list (map (\<lambda>(word, count). if P word then g word count else 0) al)"
  for a :: nat
  by (induction al arbitrary: a) (auto split: prod.splits)

lemma commonWords_createWordMap:
  "commonWords (createWordMap A) (createWordMap B) = commonWords_spec A B"
proof -
  let ?al = "createWordMap A" and ?pm = "createWordMap B"
  let ?f = "\<lambda>t. if t \<in> set B then min (count_list A t) (count_list B t) else 0"
  have entry: "(if Map_has ?pm w then min c (or_zero (Map_get ?pm w)) else 0) = ?f w"
    if "(w, c) \<in> set ?al" for w c
  proof -
    from that have "map_of ?al w = Some c"
      using distinct_createWordMap by simp
    then have c: "c = count_list A w"
      by (simp add: map_of_createWordMap split: if_splits)
    have has: "Map_has ?pm w \<longleftrightarrow> w \<in> set B"
      by (simp add: Map_has_def keys_createWordMap)
    have "or_zero (Map_get ?pm w) = count_list B w" if "w \<in> set B"
      using that by (simp add: Map_get_def map_of_createWordMap or_zero_def)
    with c has show ?thesis by simp
  qed
  have "commonWords ?al ?pm =
      sum_list (map (\<lambda>(w, c). if Map_has ?pm w then min c (or_zero (Map_get ?pm w)) else 0) ?al)"
    unfolding commonWords_def by (subst forEach_as_sum_list) simp
  also have "\<dots> = sum_list (map (\<lambda>p. ?f (fst p)) ?al)"
    by (rule arg_cong[where f = sum_list], rule map_cong) (auto simp: entry)
  also have "\<dots> = sum_list (map ?f (map fst ?al))"
    by (simp add: comp_def)
  also have "\<dots> = sum ?f (set (map fst ?al))"
    by (rule sum_list_distinct_conv_sum_set) (rule distinct_createWordMap)
  also have "\<dots> = sum ?f (set A)"
    using keys_createWordMap[of A] by simp
  also have "\<dots> = (\<Sum>t \<in> set A \<inter> set B. min (count_list A t) (count_list B t))"
    by (simp add: sum.inter_restrict)
  finally show ?thesis by (simp add: commonWords_spec_def)
qed

lemma commonWords_spec_commute: "commonWords_spec A B = commonWords_spec B A"
  by (simp add: commonWords_spec_def Int_commute min.commute)

lemma commonWords_spec_self: "commonWords_spec A A = length A"
  by (simp add: commonWords_spec_def sum_count_set)

lemma commonWords_spec_disjoint: "set A \<inter> set B = {} \<Longrightarrow> commonWords_spec A B = 0"
  by (simp add: commonWords_spec_def)

lemma words_of_tokens_space: "words_of s = tokens_space s"
  by (simp add: words_of_def tokens_space_def split_def)

lemma words_of_empty: "words_of [] = []"
  by (simp add: words_of_def split_def toLowerCase_def)

lemma exceeds_threshold_iff:
  "exceeds_threshold c m \<longleftrightarrow> m > 0 \<and> (of_nat c / of_nat m :: rat) > 6 / 10"
  by (simp add: exceeds_threshold_def)

lemma analyze_eq_spec:
  "analyzeMessageSimilarity msg prompt = isRepetitive_spec tokens_space msg prompt"
proof (cases "msg = []")
  case True
  then show ?thesis
    using words_of_empty
    by (simp add: analyzeMessageSimilarity_def isRepetitive_spec_def Let_def
        words_of_tokens_space[symmetric] commonWords_spec_def)
next
  case False
  then show ?thesis
    by (simp only: analyzeMessageSimilarity_def isRepetitive_spec_def Let_def
        words_of_tokens_space commonWords_createWordMap exceeds_threshold_iff if_False)
qed

lemma isRepetitive_spec_commute:
  "isRepetitive_spec tokenize a b = isRepetitive_spec tokenize b a"
  by (simp only: isRepetitive_spec_def Let_def commonWords_spec_commute[of "tokenize a"]
      max.commute[of "length (tokenize a)"])

lemma tokens_space_empty: "tokens_space [] = []"
  by (simp add: tokens_space_def toLowerCase_def)

lemma isRepetitive_spec_self:
  "tokenize s \<noteq> [] \<Longrightarrow> isRepetitive_spec tokenize s s"
  by (simp add: isRepetitive_spec_def commonWords_spec_self)

lemma isRepetitive_spec_disjoint:
  "set (tokenize a) \<inter> set (tokenize b) = {} \<Longrightarrow> \<not> isRepetitive_spec tokenize a b"
  by (simp add: isRepetitive_spec_def commonWords_spec_disjoint Let_def)

text \<open>
  C5 (as amended). The scorer equals the reference definition with the strings lower-cased
  and cut at the space U+0020 only (a tab or a line break does not separate tokens), empty
  tokens dropped: the sum over the shared tokens of the smaller of the two counts, divided
  by the larger number of tokens, exceeds 0.6. An empty candidate yields false, "the cat
  sat" compared with itself yields true, as does every string with at least one token
  compared with itself, and two strings that share no token yield false.
\<close>

theorem analyzeMessageSimilarity_refines_spec:
  "analyzeMessageSimilarity candidate reference
     = isRepetitive_spec tokens_space candidate reference
   \<and> \<not> analyzeMessageSimilarity [] reference
   \<and> analyzeMessageSimilarity ''the cat sat'' ''the cat sat''
   \<and> (tokens_space candidate \<noteq> [] \<longrightarrow> analyzeMessageSimilarity candidate candidate)
   \<and> (set (tokens_space candidate) \<inter> set (tokens_space reference) = {}
        \<longrightarrow> \<not> analyzeMessageSimilarity candidate reference)"
proof -
  have refines: "analyzeMessageSimilarity candidate reference
      = isRepetitive_spec tokens_space candidate reference"
    by (rule analyze_eq_spec)
  have empty: "\<not> analyzeMessageSimilarity [] reference"
    by (simp add: analyzeMessageSimilarity_def)
  have "tokens_space ''the cat sat'' \<noteq> []"
    by code_simp
  then have example: "analyzeMessageSimilarity ''the cat sat'' ''the cat sat''"
    unfolding analyze_eq_spec by (rule isRepetitive_spec_self)
  have self: "tokens_space candidate \<noteq> [] \<longrightarrow> analyzeMessageSimilarity candidate candidate"
    unfolding analyze_eq_spec by (blast intro: isRepetitive_spec_self)
  have disjoint: "set (tokens_space candidate) \<inter> set (tokens_space reference) = {}
      \<longrightarrow> \<not> analyzeMessageSimilarity candidate reference"
    unfolding analyze_eq_spec by (blast dest: isRepetitive_spec_disjoint)
  from refines empty example self disjoint show ?thesis
    by blast
qed

theorem analyzeMessageSimilarity_refines_spec_witness:
  "tokens_space ''the cat'' \<noteq> []
   \<and> set (tokens_space ''the cat'') \<inter> set (tokens_space ''a dog'') = {}
   \<and> analyzeMessageSimilarity ''the cat'' ''the cat''
   \<and> \<not> analyzeMessageSimilarity ''the cat'' ''a dog''"
proof -
  have h1: "tokens_space ''the cat'' \<noteq> []"
    by code_simp
  have h2: "set (tokens_space ''the cat'') \<inter> set (tokens_space ''a dog'') = {}"
    by code_simp
  show ?thesis
    using analyzeMessageSimilarity_refines_spec[of "''the cat''" "''a dog''"] h1 h2 by blast
qed

text \<open>
  C5 as stated fails: with tokens cut at every white space, "a<TAB>b" and "a b" have the
  same two tokens and the reference definition yields true, while the scorer keeps
  "a<TAB>b" as one token and yields false.
\<close>

theorem analyzeMessageSimilarity_tab_counterexample:
  "analyzeMessageSimilarity [CHR ''a'', CHR 0x09, CHR ''b''] ''a b'' = False \<and>
   isRepetitive_spec tokens_whitespace [CHR ''a'', CHR 0x09, CHR ''b''] ''a b'' = True"
  by code_simp

text \<open>
  C10. The scorer is symmetric in its two arguments, for all strings, the empty string
  and strings of spaces included.
\<close>

theorem analyzeMessageSimilarity_symmetric:
  "analyzeMessageSimilarity a b = analyzeMessageSimilarity b a"
  by (simp only: analyze_eq_spec isRepetitive_spec_commute[of tokens_space a b])

section \<open>The paths through the handler\<close>

text \<open>
  Each stage of the handler ends in one of a few ways, decided by the outcomes of the
  calls it awaits. The case rules below name these ways; the properties of the handler
  are proved by case analysis with them.
\<close>

lemma fst_after: "fst (after pre rest) = fst rest"
  by (simp add: after_def)

lemma snd_after: "snd (after pre rest) = pre @ snd rest"
  by (simp add: after_def)

lemma POST_persist_cases [case_names trivial write_failed persisted]:
  obtains
    "length (finalResponse_of modelResponse) \<le> 1"
    "POST_persist chatId user prompt key modelResponse w
       = (Returns (StreamingTextResponse (finalResponse_of modelResponse)), [])"
  | e where
    "length (finalResponse_of modelResponse) > 1"
    "promise_all2 (writeToHistory_result w) (companion_update_result w) = Inl e"
    "POST_persist chatId user prompt key modelResponse w
       = (Throws e, writes_of chatId user prompt key (finalResponse_of modelResponse))"
  | "length (finalResponse_of modelResponse) > 1"
    "POST_persist chatId user prompt key modelResponse w
       = (Returns (StreamingTextResponse (finalResponse_of modelResponse)),
          writes_of chatId user prompt key (finalResponse_of modelResponse))"
proof (cases "length (finalResponse_of modelResponse) > 1")
  case False
  then have short: "length (finalResponse_of modelResponse) \<le> 1"
    by simp
  then have "POST_persist chatId user prompt key modelResponse w
       = (Returns (StreamingTextResponse (finalResponse_of modelResponse)), [])"
    by (simp add: POST_persist_def Let_def)
  with short show ?thesis
    by (rule that(1))
next
  case True
  show ?thesis
  proof (cases "promise_all2 (writeToHistory_result w) (companion_update_result w)")
    case (Inl e)
    with True have "POST_persist chatId user prompt key modelResponse w
       = (Throws e, writes_of chatId user prompt key (finalResponse_of modelResponse))"
      by (simp add: POST_persist_def Let_def)
    with True Inl show ?thesis
      by (rule that(2))
  next
    case (Inr written)
    with True have "POST_persist chatId user prompt key modelResponse w
       = (Returns (StreamingTextResponse (finalResponse_of modelResponse)),
          writes_of chatId user prompt key (finalResponse_of modelResponse))"
      by (simp add: POST_persist_def Let_def)
    with True show ?thesis
      by (rule that(3))
  qed
qed

lemma POST_generate_cases [case_names create_failed pending rejected resolved]:
  obtains
    e where
    "message_create_result w = Inl e"
    "POST_generate chatId user prompt companion recentMessages similarDocs key w = (Throws e, [])"
  | "message_create_result w = Inr ()"
    "replicate_run_result w = Pending"
    "POST_generate chatId user prompt companion recentMessages similarDocs key w
       = (Never, [run_of companion prompt recentMessages, ControllerAbort])"
  | settled_at e where
    "message_create_result w = Inr ()"
    "replicate_run_result w = Rejects settled_at e"
    "POST_generate chatId user prompt companion recentMessages similarDocs key w
       = (Throws e, run_of companion prompt recentMessages # timer_callback settled_at)"
  | settled_at modelResponse where
    "message_create_result w = Inr ()"
    "replicate_run_result w = Resolves settled_at modelResponse"
    "POST_generate chatId user prompt companion recentMessages similarDocs key w
       = after (run_of companion prompt recentMessages # timer_callback settled_at)
           (POST_persist chatId user prompt key modelResponse w)"
proof (cases "message_create_result w")
  case (Inl e)
  then have "POST_generate chatId user prompt companion recentMessages similarDocs key w
      = (Throws e, [])"
    by (simp add: POST_generate_def Let_def)
  with Inl show ?thesis
    by (rule that(1))
next
  case (Inr created)
  then have created: "message_create_result w = Inr ()"
    by simp
  show ?thesis
  proof (cases "replicate_run_result w")
    case Pending
    with created have "POST_generate chatId user prompt companion recentMessages similarDocs key w
       = (Never, [run_of companion prompt recentMessages, ControllerAbort])"
      by (simp add: POST_generate_def Let_def)
    with created Pending show ?thesis
      by (rule that(2))
  next
    case (Rejects settled_at e)
    with created have "POST_generate chatId user prompt companion recentMessages similarDocs key w
       = (Throws e, run_of companion prompt recentMessages # timer_callback settled_at)"
      by (simp add: POST_generate_def Let_def)
    with created Rejects show ?thesis
      by (rule that(3))
  next
    case (Resolves settled_at modelResponse)
    with created have "POST_generate chatId user prompt companion recentMessages similarDocs key w
       = after (run_of companion prompt recentMessages # timer_callback settled_at)
           (POST_persist chatId user prompt key modelResponse w)"
      by (simp add: POST_generate_def Let_def)
    with created Resolves show ?thesis
      by (rule that(4))
  qed
qed

lemma POST_memory_cases [case_names read_failed seed_failed seeded kept]:
  obtains
    e where
    "isl (readLatestHistory_result w) \<or> isl (vectorSearch_result w)"
    "POST_memory isRepetitive lastResponse chatId user prompt companion recentMessages w
       = (Throws e, reads_of companion user)"
  | similarDocs e where
    "readLatestHistory_result w = Inr []"
    "vectorSearch_result w = Inr similarDocs"
    "seedChatHistory_result w = Inl e"
    "POST_memory isRepetitive lastResponse chatId user prompt companion recentMessages w
       = (Throws e, reads_of companion user @ [seeding_of companion user])"
  | similarDocs where
    "readLatestHistory_result w = Inr []"
    "vectorSearch_result w = Inr similarDocs"
    "seedChatHistory_result w = Inr ()"
    "POST_memory isRepetitive lastResponse chatId user prompt companion recentMessages w
       = after (reads_of companion user @ [seeding_of companion user])
           (POST_generate chatId user prompt companion recentMessages similarDocs
              (companionKey_of companion user) w)"
  | line older similarDocs where
    "readLatestHistory_result w = Inr (line # older)"
    "vectorSearch_result w = Inr similarDocs"
    "POST_memory isRepetitive lastResponse chatId user prompt companion recentMessages w
       = after (reads_of companion user)
           (POST_generate chatId user prompt companion recentMessages similarDocs
              (companionKey_of companion user) w)"
proof (cases "promise_all2 (readLatestHistory_result w) (vectorSearch_result w)")
  case (Inl e)
  then have failed: "isl (readLatestHistory_result w) \<or> isl (vectorSearch_result w)"
    by (auto simp: promise_all2_def split: sum.splits)
  from Inl have "POST_memory isRepetitive lastResponse chatId user prompt companion recentMessages w
       = (Throws e, reads_of companion user)"
    by (simp add: POST_memory_def Let_def)
  with failed show ?thesis
    by (rule that(1))
next
  case (Inr both)
  obtain records similarDocs where both: "both = (records, similarDocs)"
    by (cases both)
  from Inr both have read: "readLatestHistory_result w = Inr records"
    and found: "vectorSearch_result w = Inr similarDocs"
    by (auto simp: promise_all2_def split: sum.splits)
  have joined: "promise_all2 (readLatestHistory_result w) (vectorSearch_result w)
      = Inr (records, similarDocs)"
    using Inr both by simp
  show ?thesis
  proof (cases records)
    case (Cons line older)
    with joined have "POST_memory isRepetitive lastResponse chatId user prompt companion recentMessages w
       = after (reads_of companion user)
           (POST_generate chatId user prompt companion recentMessages similarDocs
              (companionKey_of companion user) w)"
      by (simp add: POST_memory_def Let_def)
    with read[unfolded Cons] found show ?thesis
      by (rule that(4))
  next
    case Nil
    show ?thesis
    proof (cases "seedChatHistory_result w")
      case (Inl e)
      with Nil joined have "POST_memory isRepetitive lastResponse chatId user prompt companion recentMessages w
         = (Throws e, reads_of companion user @ [seeding_of companion user])"
        by (simp add: POST_memory_def Let_def)
      with read[unfolded Nil] found Inl show ?thesis
        by (rule that(2))
    next
      case (Inr seeded)
      then have seeded: "seedChatHistory_result w = Inr ()"
        by simp
      with Nil joined have "POST_memory isRepetitive lastResponse chatId user prompt companion recentMessages w
         = after (reads_of companion user @ [seeding_of companion user])
             (POST_generate chatId user prompt companion recentMessages similarDocs
                (companionKey_of companion user) w)"
        by (simp add: POST_memory_def Let_def)
      with read[unfolded Nil] found seeded show ?thesis
        by (rule that(3))
    qed
  qed
qed

lemma POST_try_cases
  [case_names bad_json no_user unauthorized load_failed rate_limited not_found admitted]:
  obtains
    e where
    "json request = Inl e"
    "POST_try request w = (Throws e, [])"
  | prompt e where
    "json request = Inr prompt"
    "currentUser_result w = Inl e"
    "POST_try request w = (Throws e, [])"
  | prompt u where
    "json request = Inr prompt"
    "currentUser_result w = Inr u"
    "authenticated u = None"
    "POST_try request w = (Returns (NextResponse ''Unauthorized'' 401), [])"
  | prompt u user e where
    "json request = Inr prompt"
    "currentUser_result w = Inr u"
    "authenticated u = Some user"
    "isl (ratelimit_result w) \<or> isl (findUnique_result w) \<or> isl (getInstance_result w)"
    "POST_try request w = (Throws e, loads_of request user)"
  | prompt u user rateLimitResult found where
    "json request = Inr prompt"
    "currentUser_result w = Inr u"
    "authenticated u = Some user"
    "ratelimit_result w = Inr rateLimitResult"
    "findUnique_result w = Inr found"
    "getInstance_result w = Inr ()"
    "\<not> success rateLimitResult"
    "POST_try request w = (Returns (NextResponse ''Rate limit exceeded'' 429), loads_of request user)"
  | prompt u user rateLimitResult where
    "json request = Inr prompt"
    "currentUser_result w = Inr u"
    "authenticated u = Some user"
    "ratelimit_result w = Inr rateLimitResult"
    "findUnique_result w = Inr None"
    "getInstance_result w = Inr ()"
    "success rateLimitResult"
    "POST_try request w = (Returns (NextResponse ''Companion not found'' 404), loads_of request user)"
  | prompt u user rateLimitResult companion where
    "json request = Inr prompt"
    "currentUser_result w = Inr u"
    "authenticated u = Some user"
    "ratelimit_result w = Inr rateLimitResult"
    "findUnique_result w = Inr (Some companion)"
    "getInstance_result w = Inr ()"
    "success rateLimitResult"
    "POST_try request w
       = after (loads_of request user)
           (POST_admitted (chatId_param request) user prompt companion w)"
proof (cases "json request")
  case (Inl e)
  then have "POST_try request w = (Throws e, [])"
    by (simp add: POST_try_def)
  with Inl show ?thesis
    by (rule that(1))
next
  case body: (Inr prompt)
  show ?thesis
  proof (cases "currentUser_result w")
    case (Inl e)
    with body have "POST_try request w = (Throws e, [])"
      by (simp add: POST_try_def)
    with body Inl show ?thesis
      by (rule that(2))
  next
    case session: (Inr u)
    show ?thesis
    proof (cases "authenticated u")
      case None
      with body session
      have "POST_try request w = (Returns (NextResponse ''Unauthorized'' 401), [])"
        by (simp add: POST_try_def)
      with body session None show ?thesis
        by (rule that(3))
    next
      case (Some user)
      show ?thesis
      proof (cases "promise_all3 (ratelimit_result w) (findUnique_result w) (getInstance_result w)")
        case (Inl e)
        then have failed:
          "isl (ratelimit_result w) \<or> isl (findUnique_result w) \<or> isl (getInstance_result w)"
          by (auto simp: promise_all3_def promise_all2_def split: sum.splits)
        from body session Some Inl
        have "POST_try request w = (Throws e, loads_of request user)"
          by (simp add: POST_try_def Let_def)
        with body session Some failed show ?thesis
          by (rule that(4))
      next
        case (Inr loaded)
        obtain rateLimitResult found memoryManager
          where loaded: "loaded = (rateLimitResult, found, memoryManager)"
          by (cases loaded)
        from Inr loaded have limit: "ratelimit_result w = Inr rateLimitResult"
          and lookup: "findUnique_result w = Inr found"
          and store: "getInstance_result w = Inr ()"
          by (auto simp: promise_all3_def promise_all2_def split: sum.splits)
        have joined: "promise_all3 (ratelimit_result w) (findUnique_result w) (getInstance_result w)
            = Inr (rateLimitResult, found, memoryManager)"
          using Inr loaded by simp
        show ?thesis
        proof (cases "success rateLimitResult")
          case False
          with body session Some joined
          have "POST_try request w
              = (Returns (NextResponse ''Rate limit exceeded'' 429), loads_of request user)"
            by (simp add: POST_try_def Let_def)
          with body session Some limit lookup store False show ?thesis
            by (rule that(5))
        next
          case True
          show ?thesis
          proof (cases found)
            case None
            with True body session Some joined
            have "POST_try request w
                = (Returns (NextResponse ''Companion not found'' 404), loads_of request user)"
              by (simp add: POST_try_def Let_def)
            with body session Some limit lookup[unfolded None] store True show ?thesis
              by (rule that(6))
          next
            case companion: (Some companion)
            with True body session Some joined
            have "POST_try request w
                = after (loads_of request user)
                    (POST_admitted (chatId_param request) user prompt companion w)"
              by (simp add: POST_try_def Let_def)
            with body session Some limit lookup[unfolded companion] store True show ?thesis
              by (rule that(7))
          qed
        qed
      qed
    qed
  qed
qed

lemma fst_POST:
  "fst (POST request w) =
     (case fst (POST_try request w) of
        Returns response \<Rightarrow> Some response
      | Throws e \<Rightarrow> Some (NextResponse ''Internal Error'' 500)
      | Never \<Rightarrow> None)"
  by (cases "POST_try request w") (simp add: POST_def split: outcome.split)

lemma snd_POST:
  "snd (POST request w) =
     SetTimeout TIMEOUT_MS # snd (POST_try request w)
     @ (case fst (POST_try request w) of
          Throws e \<Rightarrow> [ClearTimeout, ConsoleError ''[CHAT_POST]'' e]
        | other \<Rightarrow> [])"
  by (cases "POST_try request w") (simp add: POST_def split: outcome.split)

lemma POST_admitted_unfold:
  "POST_admitted chatId user prompt companion w =
     after [MessageCreate prompt Role_user (user_id user) (companion_id companion)]
       (POST_memory
          (list_ex (\<lambda>msg. analyzeMessageSimilarity (content msg) prompt) (messages companion))
          (case messages companion of [] \<Rightarrow> [] | newest # older \<Rightarrow> content newest)
          chatId user prompt companion (messages companion) w)"
  by (simp add: POST_admitted_def Let_def)

lemmas stage_defs = POST_def POST_try_def POST_admitted_def POST_memory_def POST_generate_def
  POST_persist_def authenticated_def promise_all2_def promise_all3_def after_def
  timer_callback_def Let_def

lemmas concrete_defs = stage_defs finalResponse_of_def split_def messageHistory_of_def
  prompt_template_def trim_def isWhitespace_def TIMEOUT_MS_def MAX_LENGTH_def
  ask_def calm_def ada_def alice_def

section \<open>The prompt\<close>

lemma persist_ignores_search:
  "POST_persist chatId user prompt key modelResponse (w\<lparr>vectorSearch_result := found\<rparr>)
   = POST_persist chatId user prompt key modelResponse w"
  by (simp add: POST_persist_def Let_def)

lemma generate_ignores_similarDocs:
  "POST_generate chatId user prompt companion recentMessages similarDocs key w
   = POST_generate chatId user prompt companion recentMessages similarDocs' key w"
  by (simp add: POST_generate_def Let_def)

lemma generate_ignores_search:
  "POST_generate chatId user prompt companion recentMessages similarDocs key
     (w\<lparr>vectorSearch_result := found\<rparr>)
   = POST_generate chatId user prompt companion recentMessages similarDocs key w"
  by (simp add: POST_generate_def Let_def persist_ignores_search split: sum.split generation.split)

lemma memory_ignores_snippets:
  "vectorSearch_result w = Inr similarDocs \<Longrightarrow>
   POST_memory isRepetitive lastResponse chatId user prompt companion recentMessages
     (w\<lparr>vectorSearch_result := Inr similarDocs'\<rparr>)
   = POST_memory isRepetitive lastResponse chatId user prompt companion recentMessages w"
  by (cases "readLatestHistory_result w"; cases "seedChatHistory_result w")
    (simp_all add: POST_memory_def promise_all2_def Let_def generate_ignores_search
      generate_ignores_similarDocs[where similarDocs = similarDocs' and similarDocs' = similarDocs])

lemma POST_ignores_archival_snippets:
  "vectorSearch_result w = Inr similarDocs \<Longrightarrow>
   POST request (w\<lparr>vectorSearch_result := Inr similarDocs'\<rparr>) = POST request w"
  by (simp add: POST_def POST_try_def POST_admitted_def promise_all2_def promise_all3_def Let_def
      memory_ignores_snippets
      split: sum.split option.split)

text \<open>
  C1. The prompt passed to the generation client is to contain the preamble with the
  persona and its instructions, the recent turns oldest first, the archival snippets that
  \<open>vectorSearch\<close> returned when there are any, and the user input as the question. The
  handler joins the snippets into \<open>relevantHistory\<close> and never uses it: with the snippet
  "Ada wrote the first program." returned, the prompt holds the preamble, the two recent
  turns oldest first and the question, and no snippet; it is the prompt of the same
  request with no snippets at all.
\<close>

theorem prompt_omits_archival_snippets:
  "vectorSearch_result calm = Inr (Some [\<lparr>pageContent = ''Ada wrote the first program.''\<rparr>])
   \<and> generation_prompts (snd (POST ask calm))
       = [''<|system|>\<newline>You are Ada. Focus on: What is new?\<newline>Be brief.\<newline>Recent context:\<newline>User: How are you?\<newline>Ada: I am fine.\<newline>Current question: What is new?\<newline><|assistant|>'']
   \<and> generation_prompts (snd (POST ask (calm\<lparr>vectorSearch_result := Inr None\<rparr>)))
       = generation_prompts (snd (POST ask calm))"
  by (simp add: concrete_defs)

section \<open>The timer\<close>

lemma persist_keeps_timer:
  "ClearTimeout \<notin> set (snd (POST_persist chatId user prompt key modelResponse w))
   \<and> fst (POST_persist chatId user prompt key modelResponse w)
       \<noteq> Returns (NextResponse ''Internal Error'' 500)"
  by (rule POST_persist_cases[of modelResponse chatId user prompt key w]) simp_all

lemma generate_keeps_timer:
  "ClearTimeout \<notin> set (snd (POST_generate chatId user prompt companion recentMessages similarDocs key w))
   \<and> fst (POST_generate chatId user prompt companion recentMessages similarDocs key w)
       \<noteq> Returns (NextResponse ''Internal Error'' 500)"
  by (rule POST_generate_cases[of w chatId user prompt companion recentMessages similarDocs key])
    (simp_all add: fst_after snd_after persist_keeps_timer timer_callback_def)

lemma memory_keeps_timer:
  "ClearTimeout \<notin> set (snd (POST_memory isRepetitive lastResponse chatId user prompt companion
                              recentMessages w))
   \<and> fst (POST_memory isRepetitive lastResponse chatId user prompt companion recentMessages w)
       \<noteq> Returns (NextResponse ''Internal Error'' 500)"
  by (rule POST_memory_cases[of w isRepetitive lastResponse chatId user prompt companion
        recentMessages])
    (simp_all add: fst_after snd_after generate_keeps_timer)

lemma try_keeps_timer:
  "ClearTimeout \<notin> set (snd (POST_try request w))
   \<and> fst (POST_try request w) \<noteq> Returns (NextResponse ''Internal Error'' 500)"
  by (rule POST_try_cases[of request w])
    (simp_all add: fst_after snd_after POST_admitted_unfold memory_keeps_timer)

lemma timer_cleared_iff_internal_error:
  "ClearTimeout \<in> set (snd (POST request w))
     \<longleftrightarrow> fst (POST request w) = Some (NextResponse ''Internal Error'' 500)"
  using try_keeps_timer[of request w]
  by (cases "fst (POST_try request w)") (simp_all add: fst_POST snd_POST)

text \<open>
  C2. The timer set at entry is to be cleared on every exit path. Only the \<open>catch\<close> block
  clears it: the 401 return of an unauthenticated request makes no call after
  \<open>setTimeout\<close>, and the streamed 200 response is returned with no \<open>clearTimeout\<close>
  either.
\<close>

theorem timer_left_pending_on_return:
  "POST ask (calm\<lparr>currentUser_result := Inr None\<rparr>)
     = (Some (NextResponse ''Unauthorized'' 401), [SetTimeout 30000])
   \<and> fst (POST ask calm) = Some (StreamingTextResponse ''Hello there'')
   \<and> ClearTimeout \<notin> set (snd (POST ask calm))"
  by (simp add: concrete_defs)

section \<open>The write of the user turn\<close>

lemma generate_create_failed:
  "message_create_result w = Inl e \<Longrightarrow>
   POST_generate chatId user prompt companion recentMessages similarDocs key w = (Throws e, [])"
  by (simp add: POST_generate_def)

lemma memory_create_failed:
  assumes "message_create_result w = Inl e"
  shows "\<not> list_ex is_generation
           (snd (POST_memory isRepetitive lastResponse chatId user prompt companion recentMessages w))
       \<and> (\<exists>thrown. fst (POST_memory isRepetitive lastResponse chatId user prompt companion
                          recentMessages w) = Throws thrown)"
  by (rule POST_memory_cases[of w isRepetitive lastResponse chatId user prompt companion
        recentMessages])
    (simp_all add: fst_after snd_after generate_create_failed[OF assms])

lemma memory_create_failed_others_succeed:
  assumes "message_create_result w = Inl e"
      and "readLatestHistory_result w = Inr records"
      and "vectorSearch_result w = Inr similarDocs"
      and "seedChatHistory_result w = Inr ()"
  shows "POST_memory isRepetitive lastResponse chatId user prompt companion recentMessages w
       = (Throws e, reads_of companion user
                    @ (if records = [] then [seeding_of companion user] else []))"
  using assms
  by (simp add: POST_memory_def promise_all2_def Let_def after_def generate_create_failed)

text \<open>
  C3 (as amended). The write of the user turn is started before the history read and the
  vector search without being awaited there, and the handler awaits it before it calls
  the generation client. When that write fails, no request invokes the generation client
  or gets the streamed response; and when every other step up to there succeeds, the
  handler has made the loading calls, started the write, read the history and searched
  (and seeded an empty history), and then clears the timer, logs the failure of the write
  and returns the 500 "Internal Error".
\<close>

theorem user_turn_write_awaited:
  assumes "message_create_result w = Inl e"
  shows "\<not> list_ex is_generation (snd (POST request w))
       \<and> (\<forall>text. fst (POST request w) \<noteq> Some (StreamingTextResponse text))
       \<and> (json request = Inr prompt \<and> currentUser_result w = Inr u \<and> authenticated u = Some user
          \<and> ratelimit_result w = Inr rateLimitResult \<and> success rateLimitResult
          \<and> findUnique_result w = Inr (Some companion) \<and> getInstance_result w = Inr ()
          \<and> readLatestHistory_result w = Inr records \<and> vectorSearch_result w = Inr similarDocs
          \<and> seedChatHistory_result w = Inr ()
          \<longrightarrow> POST request w =
                (Some (NextResponse ''Internal Error'' 500),
                 SetTimeout TIMEOUT_MS # loads_of request user
                 @ [MessageCreate prompt Role_user (user_id user) (companion_id companion)]
                 @ reads_of companion user
                 @ (if records = [] then [seeding_of companion user] else [])
                 @ [ClearTimeout, ConsoleError ''[CHAT_POST]'' e]))"
proof -
  have general: "\<not> list_ex is_generation (snd (POST request w))
       \<and> (\<forall>text. fst (POST request w) \<noteq> Some (StreamingTextResponse text))"
  proof (cases rule: POST_try_cases[of request w])
    case (admitted prompt u user r companion)
    let ?memory = "POST_memory
          (list_ex (\<lambda>msg. analyzeMessageSimilarity (content msg) prompt) (messages companion))
          (case messages companion of [] \<Rightarrow> [] | newest # older \<Rightarrow> content newest)
          (chatId_param request) user prompt companion (messages companion) w"
    from memory_create_failed[OF assms]
    obtain thrown where "\<not> list_ex is_generation (snd ?memory)" "fst ?memory = Throws thrown"
      by blast
    with admitted(8) show ?thesis
      by (simp add: snd_POST fst_POST fst_after snd_after POST_admitted_unfold)
  qed (simp_all add: snd_POST fst_POST)
  have specific: "POST request w =
                (Some (NextResponse ''Internal Error'' 500),
                 SetTimeout TIMEOUT_MS # loads_of request user
                 @ [MessageCreate prompt Role_user (user_id user) (companion_id companion)]
                 @ reads_of companion user
                 @ (if records = [] then [seeding_of companion user] else [])
                 @ [ClearTimeout, ConsoleError ''[CHAT_POST]'' e])"
    if "json request = Inr prompt" "currentUser_result w = Inr u" "authenticated u = Some user"
      "ratelimit_result w = Inr rateLimitResult" "success rateLimitResult"
      "findUnique_result w = Inr (Some companion)" "getInstance_result w = Inr ()"
      "readLatestHistory_result w = Inr records" "vectorSearch_result w = Inr similarDocs"
      "seedChatHistory_result w = Inr ()"
  proof -
    have "POST_try request w
        = after (loads_of request user)
            (POST_admitted (chatId_param request) user prompt companion w)"
      using that(1-7) by (simp add: POST_try_def promise_all3_def promise_all2_def Let_def)
    then show ?thesis
      using memory_create_failed_others_succeed[OF assms that(8-10)]
      by (simp add: POST_def POST_admitted_unfold after_def)
  qed
  from general specific show ?thesis
    by blast
qed

theorem user_turn_write_awaited_witness:
  "message_create_result (calm\<lparr>message_create_result := Inl (Error ''write refused'')\<rparr>)
     = Inl (Error ''write refused'')
   \<and> \<not> list_ex is_generation
        (snd (POST ask (calm\<lparr>message_create_result := Inl (Error ''write refused'')\<rparr>)))
   \<and> POST ask (calm\<lparr>message_create_result := Inl (Error ''write refused'')\<rparr>) =
       (Some (NextResponse ''Internal Error'' 500),
        SetTimeout TIMEOUT_MS # loads_of ask alice
        @ [MessageCreate ''What is new?'' Role_user (user_id alice) (companion_id ada)]
        @ reads_of ada alice
        @ [ClearTimeout, ConsoleError ''[CHAT_POST]'' (Error ''write refused'')])"
proof -
  let ?w = "calm\<lparr>message_create_result := Inl (Error ''write refused'')\<rparr>"
  have failed: "message_create_result ?w = Inl (Error ''write refused'')"
    by simp
  have others: "json ask = Inr ''What is new?'' \<and> currentUser_result ?w = Inr (Some alice)
      \<and> authenticated (Some alice) = Some alice
      \<and> ratelimit_result ?w = Inr \<lparr>success = True\<rparr> \<and> success \<lparr>success = True\<rparr>
      \<and> findUnique_result ?w = Inr (Some ada) \<and> getInstance_result ?w = Inr ()
      \<and> readLatestHistory_result ?w = Inr [''Human: hi'']
      \<and> vectorSearch_result ?w = Inr (Some [\<lparr>pageContent = ''Ada wrote the first program.''\<rparr>])
      \<and> seedChatHistory_result ?w = Inr ()"
    by (simp add: ask_def calm_def alice_def authenticated_def)
  from user_turn_write_awaited[OF failed, of ask "''What is new?''" "Some alice" alice "\<lparr>success = True\<rparr>" ada
      "[''Human: hi'']" "Some [\<lparr>pageContent = ''Ada wrote the first program.''\<rparr>]"]
    failed others
  show ?thesis by simp
qed

text \<open>
  C3 as stated fails: with the write of the user turn refused and every other call
  succeeding, the response is the 500 "Internal Error", not the generated "Hello there"
  that the same request gets when the write succeeds.
\<close>

theorem user_turn_write_failure_counterexample:
  "message_create_result (calm\<lparr>message_create_result := Inl (Error ''write refused'')\<rparr>)
     = Inl (Error ''write refused'')
   \<and> fst (POST ask (calm\<lparr>message_create_result := Inl (Error ''write refused'')\<rparr>))
     = Some (NextResponse ''Internal Error'' 500)
   \<and> fst (POST ask calm) = Some (StreamingTextResponse ''Hello there'')"
  by (simp add: concrete_defs)

section \<open>The deadline\<close>

lemma persist_ignores_generation:
  "POST_persist chatId user prompt key modelResponse (w\<lparr>replicate_run_result := g\<rparr>)
   = POST_persist chatId user prompt key modelResponse w"
  by (simp add: POST_persist_def Let_def)

lemma generate_ignores_deadline:
  "fst (POST_generate chatId user prompt companion recentMessages similarDocs key
          (w\<lparr>replicate_run_result := Resolves settled_at modelResponse\<rparr>))
   = (case message_create_result w of
        Inl e \<Rightarrow> Throws e
      | Inr created \<Rightarrow> fst (POST_persist chatId user prompt key modelResponse w))"
  by (simp add: POST_generate_def Let_def persist_ignores_generation fst_after split: sum.split)

lemma memory_ignores_deadline:
  "fst (POST_memory isRepetitive lastResponse chatId user prompt companion recentMessages
          (w\<lparr>replicate_run_result := Resolves settled_at modelResponse\<rparr>))
   = fst (POST_memory isRepetitive lastResponse chatId user prompt companion recentMessages
          (w\<lparr>replicate_run_result := Resolves settled_at' modelResponse\<rparr>))"
  by (simp add: POST_memory_def promise_all2_def Let_def fst_after generate_ignores_deadline
      split: sum.split)

lemma response_ignores_deadline:
  "fst (POST request (w\<lparr>replicate_run_result := Resolves settled_at modelResponse\<rparr>))
   = fst (POST request (w\<lparr>replicate_run_result := Resolves settled_at' modelResponse\<rparr>))"
  using memory_ignores_deadline[where w = w and settled_at = settled_at
      and settled_at' = settled_at' and modelResponse = modelResponse]
  by (simp add: fst_POST POST_try_def POST_admitted_def promise_all2_def promise_all3_def
      Let_def fst_after
      split: sum.split option.split)

text \<open>
  C4. A generation call that outlasts the 30000 ms deadline is to be aborted and the
  request to fail close to the deadline. The callback of the timer aborts a controller
  whose signal no call receives: a generation that resolves after 60000 ms is streamed as
  the 200 response although the callback has run, and with a generation that never
  settles the handler never returns.
\<close>

theorem deadline_does_not_abort_generation:
  "fst (POST ask (calm\<lparr>replicate_run_result := Resolves 60000 ''Hello there''\<rparr>))
     = Some (StreamingTextResponse ''Hello there'')
   \<and> ControllerAbort \<in> set (snd (POST ask (calm\<lparr>replicate_run_result := Resolves 60000 ''Hello there''\<rparr>)))
   \<and> fst (POST ask (calm\<lparr>replicate_run_result := Pending\<rparr>)) = None"
  by (simp add: concrete_defs)

section \<open>Seeding\<close>

lemma persist_no_seeding:
  "filter is_seeding (snd (POST_persist chatId user prompt key modelResponse w)) = []"
  by (rule POST_persist_cases[of modelResponse chatId user prompt key w]) simp_all

lemma generate_no_seeding:
  "filter is_seeding
     (snd (POST_generate chatId user prompt companion recentMessages similarDocs key w)) = []"
  by (rule POST_generate_cases[of w chatId user prompt companion recentMessages similarDocs key])
    (simp_all add: snd_after persist_no_seeding timer_callback_def)

lemma memory_seeding:
  "filter is_seeding
     (snd (POST_memory isRepetitive lastResponse chatId user prompt companion recentMessages w))
   = (if readLatestHistory_result w = Inr [] \<and> \<not> isl (vectorSearch_result w)
      then [seeding_of companion user] else [])"
  by (rule POST_memory_cases[of w isRepetitive lastResponse chatId user prompt companion
        recentMessages])
    (auto simp: snd_after generate_no_seeding)

lemma memory_reads_history:
  "list_ex is_history_read
     (snd (POST_memory isRepetitive lastResponse chatId user prompt companion recentMessages w))"
  by (rule POST_memory_cases[of w isRepetitive lastResponse chatId user prompt companion
        recentMessages])
    (simp_all add: snd_after)

lemma filter_snd_POST:
  assumes "\<not> P (SetTimeout TIMEOUT_MS)" "\<not> P ClearTimeout" "\<And>e. \<not> P (ConsoleError ''[CHAT_POST]'' e)"
  shows "filter P (snd (POST request w)) = filter P (snd (POST_try request w))"
  using assms by (simp add: snd_POST split: outcome.split)

lemma memory_reads_key:
  "ReadLatestHistory (companionKey_of companion user)
     \<in> set (snd (POST_memory isRepetitive lastResponse chatId user prompt companion
                   recentMessages w))"
  by (rule POST_memory_cases[of w isRepetitive lastResponse chatId user prompt companion
        recentMessages])
    (simp_all add: snd_after)

lemma seeding_has_read_key:
  assumes "SeedChatHistory text delimiter key \<in> set (snd (POST request w))"
  shows "ReadLatestHistory key \<in> set (snd (POST request w))"
proof -
  from assms have "SeedChatHistory text delimiter key
      \<in> set (filter is_seeding (snd (POST request w)))"
    by simp
  then have seeded: "SeedChatHistory text delimiter key
      \<in> set (filter is_seeding (snd (POST_try request w)))"
    by (simp only: filter_snd_POST[of is_seeding, simplified])
  show ?thesis
  proof (cases rule: POST_try_cases[of request w])
    case (admitted prompt u user rateLimitResult companion)
    from seeded have "key = companionKey_of companion user"
      by (simp add: admitted(8) snd_after POST_admitted_unfold memory_seeding split: if_splits)
    then show ?thesis
      using memory_reads_key[of companion user]
      by (simp add: snd_POST admitted(8) snd_after POST_admitted_unfold)
  qed (use seeded in simp_all)
qed

text \<open>
  C6 (as amended). \<open>seedChatHistory\<close> is invoked if and only if the handler has called
  \<open>readLatestHistory\<close>, that call returned an empty sequence and the \<open>vectorSearch\<close>
  awaited together with it has completed too. No request seeds more than once; a request
  that finds the history empty, with the search completed, performs exactly one seeding
  write, and a request that finds the history non-empty performs none. The key that is
  seeded is the key whose history was read.
\<close>

theorem seeding_only_after_empty_history:
  "(list_ex is_seeding (snd (POST request w))
      \<longleftrightarrow> list_ex is_history_read (snd (POST request w))
          \<and> readLatestHistory_result w = Inr [] \<and> \<not> isl (vectorSearch_result w))
   \<and> length (filter is_seeding (snd (POST request w))) \<le> 1
   \<and> (list_ex is_history_read (snd (POST request w))
        \<and> readLatestHistory_result w = Inr [] \<and> \<not> isl (vectorSearch_result w)
       \<longrightarrow> length (filter is_seeding (snd (POST request w))) = 1)
   \<and> (readLatestHistory_result w = Inr (line # older)
       \<longrightarrow> filter is_seeding (snd (POST request w)) = [])
   \<and> (\<forall>text delimiter key.
         SeedChatHistory text delimiter key \<in> set (snd (POST request w))
         \<longrightarrow> ReadLatestHistory key \<in> set (snd (POST request w)))"
proof -
  let ?empty = "readLatestHistory_result w = Inr [] \<and> \<not> isl (vectorSearch_result w)"
  have seedings: "filter is_seeding (snd (POST request w))
      = filter is_seeding (snd (POST_try request w))"
    by (rule filter_snd_POST) simp_all
  have reads: "filter is_history_read (snd (POST request w))
      = filter is_history_read (snd (POST_try request w))"
    by (rule filter_snd_POST) simp_all
  have count: "length (filter is_seeding (snd (POST_try request w)))
      = (if filter is_history_read (snd (POST_try request w)) \<noteq> [] \<and> ?empty then 1 else 0)"
  proof (cases rule: POST_try_cases[of request w])
    case (admitted prompt u user rateLimitResult companion)
    have "filter is_history_read
        (snd (POST_admitted (chatId_param request) user prompt companion w)) \<noteq> []"
      using memory_reads_history
      by (simp add: POST_admitted_unfold snd_after filter_empty_conv list_ex_iff)
    then show ?thesis
      by (simp add: admitted(8) snd_after POST_admitted_unfold memory_seeding)
  qed simp_all
  have ex_filter: "list_ex P xs \<longleftrightarrow> filter P xs \<noteq> []" for P :: "effect \<Rightarrow> bool" and xs
    by (simp add: filter_empty_conv list_ex_iff)
  have counted: "(list_ex is_seeding (snd (POST request w))
      \<longleftrightarrow> list_ex is_history_read (snd (POST request w))
          \<and> readLatestHistory_result w = Inr [] \<and> \<not> isl (vectorSearch_result w))
   \<and> length (filter is_seeding (snd (POST request w))) \<le> 1
   \<and> (list_ex is_history_read (snd (POST request w))
        \<and> readLatestHistory_result w = Inr [] \<and> \<not> isl (vectorSearch_result w)
       \<longrightarrow> length (filter is_seeding (snd (POST request w))) = 1)
   \<and> (readLatestHistory_result w = Inr (line # older)
       \<longrightarrow> filter is_seeding (snd (POST request w)) = [])"
    using count unfolding ex_filter seedings reads
    by (auto split: if_splits)
  have same_key: "\<forall>text delimiter key.
         SeedChatHistory text delimiter key \<in> set (snd (POST request w))
         \<longrightarrow> ReadLatestHistory key \<in> set (snd (POST request w))"
    by (blast intro: seeding_has_read_key)
  from counted same_key show ?thesis
    by (elim conjE, intro conjI) assumption+
qed

theorem seeding_only_after_empty_history_witness:
  "readLatestHistory_result calm = Inr [''Human: hi'']
   \<and> filter is_seeding (snd (POST ask calm)) = []
   \<and> list_ex is_history_read (snd (POST ask (calm\<lparr>readLatestHistory_result := Inr []\<rparr>)))
   \<and> readLatestHistory_result (calm\<lparr>readLatestHistory_result := Inr []\<rparr>) = Inr []
   \<and> \<not> isl (vectorSearch_result (calm\<lparr>readLatestHistory_result := Inr []\<rparr>))
   \<and> length (filter is_seeding (snd (POST ask (calm\<lparr>readLatestHistory_result := Inr []\<rparr>)))) = 1
   \<and> seeding_of ada alice \<in> set (snd (POST ask (calm\<lparr>readLatestHistory_result := Inr []\<rparr>)))
   \<and> ReadLatestHistory (companionKey_of ada alice)
       \<in> set (snd (POST ask (calm\<lparr>readLatestHistory_result := Inr []\<rparr>)))"
proof -
  let ?first = "calm\<lparr>readLatestHistory_result := Inr []\<rparr>"
  have kept: "readLatestHistory_result calm = Inr [''Human: hi'']"
    by (simp add: calm_def)
  have read: "list_ex is_history_read (snd (POST ask ?first))"
    by (simp add: concrete_defs)
  have empty: "readLatestHistory_result ?first = Inr []"
    by simp
  have found: "\<not> isl (vectorSearch_result ?first)"
    by (simp add: calm_def)
  have seeded: "seeding_of ada alice \<in> set (snd (POST ask ?first))"
    by (simp add: concrete_defs)
  from seeding_only_after_empty_history[of ask calm "''Human: hi''" "[]"]
    seeding_only_after_empty_history[of ask ?first] kept read empty found seeded
  show ?thesis by blast
qed

text \<open>
  C6 as stated fails: when \<open>readLatestHistory\<close> returns the empty sequence and the
  \<open>vectorSearch\<close> started with it rejects, the join rejects and nothing is seeded.
\<close>

theorem seeding_skipped_counterexample:
  "list_ex is_history_read
     (snd (POST ask (calm\<lparr>readLatestHistory_result := Inr [],
                          vectorSearch_result := Inl (Error ''index unavailable'')\<rparr>)))
   \<and> readLatestHistory_result
        (calm\<lparr>readLatestHistory_result := Inr [],
              vectorSearch_result := Inl (Error ''index unavailable'')\<rparr>) = Inr []
   \<and> \<not> list_ex is_seeding
        (snd (POST ask (calm\<lparr>readLatestHistory_result := Inr [],
                             vectorSearch_result := Inl (Error ''index unavailable'')\<rparr>)))"
  by (simp add: concrete_defs)

section \<open>The trivial response\<close>

lemma generate_trivial:
  assumes "replicate_run_result w = Resolves settled_at modelResponse"
      and "length (finalResponse_of modelResponse) \<le> 1"
      and "list_ex is_generation
             (snd (POST_generate chatId user prompt companion recentMessages similarDocs key w))"
  shows "fst (POST_generate chatId user prompt companion recentMessages similarDocs key w)
           = Returns (StreamingTextResponse (finalResponse_of modelResponse))
       \<and> \<not> list_ex is_reply_write
             (snd (POST_generate chatId user prompt companion recentMessages similarDocs key w))"
proof (cases rule: POST_generate_cases[of w chatId user prompt companion recentMessages similarDocs key])
  case (create_failed e)
  with assms(3) show ?thesis by simp
next
  case pending
  with assms(1) show ?thesis by simp
next
  case (rejected t e)
  with assms(1) show ?thesis by simp
next
  case (resolved t m)
  with assms(1) have m: "m = modelResponse" by simp
  from assms(2) have "POST_persist chatId user prompt key modelResponse w
      = (Returns (StreamingTextResponse (finalResponse_of modelResponse)), [])"
    by (simp add: POST_persist_def Let_def)
  with resolved(3) m show ?thesis
    by (simp add: fst_after snd_after timer_callback_def)
qed

lemma memory_trivial:
  assumes "replicate_run_result w = Resolves settled_at modelResponse"
      and "length (finalResponse_of modelResponse) \<le> 1"
      and "list_ex is_generation
             (snd (POST_memory isRepetitive lastResponse chatId user prompt companion recentMessages w))"
  shows "fst (POST_memory isRepetitive lastResponse chatId user prompt companion recentMessages w)
           = Returns (StreamingTextResponse (finalResponse_of modelResponse))
       \<and> \<not> list_ex is_reply_write
             (snd (POST_memory isRepetitive lastResponse chatId user prompt companion recentMessages w))"
proof (cases rule: POST_memory_cases[of w isRepetitive lastResponse chatId user prompt companion
        recentMessages])
  case (read_failed e)
  with assms(3) show ?thesis by simp
next
  case (seed_failed similarDocs e)
  with assms(3) show ?thesis by simp
next
  case (seeded similarDocs)
  with assms(3) have "list_ex is_generation
      (snd (POST_generate chatId user prompt companion recentMessages similarDocs
         (companionKey_of companion user) w))"
    by (simp add: snd_after)
  from generate_trivial[OF assms(1,2) this] seeded(4) show ?thesis
    by (simp add: fst_after snd_after)
next
  case (kept line older similarDocs)
  with assms(3) have "list_ex is_generation
      (snd (POST_generate chatId user prompt companion recentMessages similarDocs
         (companionKey_of companion user) w))"
    by (simp add: snd_after)
  from generate_trivial[OF assms(1,2) this] kept(3) show ?thesis
    by (simp add: fst_after snd_after)
qed

text \<open>
  C7. \<open>finalResponse\<close> is the first line of the generated output ("Hello there" for
  "Hello there" followed by a line break and "I am rambling more"). Every request whose
  generation returned a \<open>finalResponse\<close> of length at most 1 appends nothing to the
  history and creates no system turn, and still returns the streamed 200 response with
  that \<open>finalResponse\<close>.
\<close>

theorem trivial_response_skips_persistence:
  assumes "list_ex is_generation (snd (POST request w))"
      and "replicate_run_result w = Resolves settled_at modelResponse"
      and "length (finalResponse_of modelResponse) \<le> 1"
  shows "fst (POST request w) = Some (StreamingTextResponse (finalResponse_of modelResponse))
       \<and> status (StreamingTextResponse (finalResponse_of modelResponse)) = 200
       \<and> \<not> list_ex is_reply_write (snd (POST request w))
       \<and> finalResponse_of ''Hello there\<newline>I am rambling more'' = ''Hello there''"
proof -
  have example: "finalResponse_of ''Hello there\<newline>I am rambling more'' = ''Hello there''"
    by (simp add: finalResponse_of_def split_def)
  have "fst (POST request w) = Some (StreamingTextResponse (finalResponse_of modelResponse))
       \<and> \<not> list_ex is_reply_write (snd (POST request w))"
  proof (cases rule: POST_try_cases[of request w])
    case (admitted prompt u user r companion)
    let ?memory = "POST_memory
          (list_ex (\<lambda>msg. analyzeMessageSimilarity (content msg) prompt) (messages companion))
          (case messages companion of [] \<Rightarrow> [] | newest # older \<Rightarrow> content newest)
          (chatId_param request) user prompt companion (messages companion) w"
    from assms(1) admitted(8) have "list_ex is_generation (snd ?memory)"
      by (simp add: snd_POST snd_after POST_admitted_unfold split: outcome.splits)
    from memory_trivial[OF assms(2,3) this] admitted(8) show ?thesis
      by (simp add: snd_POST fst_POST fst_after snd_after POST_admitted_unfold)
  qed (use assms(1) in \<open>simp_all add: snd_POST\<close>)
  with example show ?thesis by simp
qed

theorem trivial_response_skips_persistence_witness:
  "list_ex is_generation (snd (POST ask (calm\<lparr>replicate_run_result := Resolves 10 ''k\<newline>rest''\<rparr>)))
   \<and> replicate_run_result (calm\<lparr>replicate_run_result := Resolves 10 ''k\<newline>rest''\<rparr>)
       = Resolves 10 ''k\<newline>rest''
   \<and> length (finalResponse_of ''k\<newline>rest'') \<le> 1
   \<and> fst (POST ask (calm\<lparr>replicate_run_result := Resolves 10 ''k\<newline>rest''\<rparr>))
       = Some (StreamingTextResponse ''k'')
   \<and> \<not> list_ex is_reply_write (snd (POST ask (calm\<lparr>replicate_run_result := Resolves 10 ''k\<newline>rest''\<rparr>)))"
proof -
  let ?w = "calm\<lparr>replicate_run_result := Resolves 10 ''k\<newline>rest''\<rparr>"
  have reached: "list_ex is_generation (snd (POST ask ?w))"
    by (simp add: concrete_defs)
  have resolves: "replicate_run_result ?w = Resolves 10 ''k\<newline>rest''"
    by simp
  have first: "finalResponse_of ''k\<newline>rest'' = ''k''"
    by (simp add: finalResponse_of_def split_def)
  then have short: "length (finalResponse_of ''k\<newline>rest'') \<le> 1"
    by simp
  from trivial_response_skips_persistence[OF reached resolves short] reached resolves short first
  show ?thesis by simp
qed

section \<open>Admission\<close>

text \<open>
  C8 (as amended). For every request whose rate-limit check returns \<open>success = false\<close>,
  the generation client is never invoked and nothing is written (no user turn, no
  seeding, no history append, no system turn). The response is the 429 "Rate limit
  exceeded" when the companion lookup and the acquisition of the memory manager awaited
  with the check complete, and the 500 "Internal Error" when one of them throws.
\<close>

theorem rate_limited_never_generates:
  assumes "list_ex is_rate_check (snd (POST request w))"
      and "ratelimit_result w = Inr rateLimitResult"
      and "\<not> success rateLimitResult"
  shows "\<not> list_ex is_generation (snd (POST request w))
       \<and> \<not> list_ex is_write (snd (POST request w))
       \<and> fst (POST request w) =
           Some (if isl (findUnique_result w) \<or> isl (getInstance_result w)
                 then NextResponse ''Internal Error'' 500
                 else NextResponse ''Rate limit exceeded'' 429)"
proof (cases rule: POST_try_cases[of request w])
  case (bad_json e)
  with assms(1) show ?thesis by (simp add: snd_POST)
next
  case (no_user prompt e)
  with assms(1) show ?thesis by (simp add: snd_POST)
next
  case (unauthorized prompt u)
  with assms(1) show ?thesis by (simp add: snd_POST)
next
  case (load_failed prompt u user e)
  with assms(2) show ?thesis by (simp add: snd_POST fst_POST)
next
  case (rate_limited prompt u user r found)
  then show ?thesis by (simp add: snd_POST fst_POST)
next
  case (not_found prompt u user r)
  with assms(2,3) show ?thesis by simp
next
  case (admitted prompt u user r companion)
  with assms(2,3) show ?thesis by simp
qed

theorem rate_limited_never_generates_witness:
  "list_ex is_rate_check (snd (POST ask (calm\<lparr>ratelimit_result := Inr \<lparr>success = False\<rparr>\<rparr>)))
   \<and> ratelimit_result (calm\<lparr>ratelimit_result := Inr \<lparr>success = False\<rparr>\<rparr>) = Inr \<lparr>success = False\<rparr>
   \<and> \<not> success \<lparr>success = False\<rparr>
   \<and> \<not> list_ex is_generation (snd (POST ask (calm\<lparr>ratelimit_result := Inr \<lparr>success = False\<rparr>\<rparr>)))
   \<and> \<not> list_ex is_write (snd (POST ask (calm\<lparr>ratelimit_result := Inr \<lparr>success = False\<rparr>\<rparr>)))
   \<and> fst (POST ask (calm\<lparr>ratelimit_result := Inr \<lparr>success = False\<rparr>\<rparr>))
       = Some (NextResponse ''Rate limit exceeded'' 429)"
proof -
  let ?w = "calm\<lparr>ratelimit_result := Inr \<lparr>success = False\<rparr>\<rparr>"
  have checked: "list_ex is_rate_check (snd (POST ask ?w))"
    by (simp add: concrete_defs)
  have refused: "ratelimit_result ?w = Inr \<lparr>success = False\<rparr>"
    by simp
  have no: "\<not> success \<lparr>success = False\<rparr>"
    by simp
  have others: "\<not> (isl (findUnique_result ?w) \<or> isl (getInstance_result ?w))"
    by (simp add: calm_def)
  from rate_limited_never_generates[OF checked refused no] checked refused others
  show ?thesis by simp
qed

text \<open>
  C8 as stated fails: when the check returns \<open>success = false\<close> and the companion lookup
  awaited with it rejects, the response is the 500 "Internal Error", not the 429.
\<close>

theorem rate_limited_internal_error_counterexample:
  "list_ex is_rate_check
     (snd (POST ask (calm\<lparr>ratelimit_result := Inr \<lparr>success = False\<rparr>,
                          findUnique_result := Inl (Error ''database unreachable'')\<rparr>)))
   \<and> ratelimit_result (calm\<lparr>ratelimit_result := Inr \<lparr>success = False\<rparr>,
                            findUnique_result := Inl (Error ''database unreachable'')\<rparr>)
       = Inr \<lparr>success = False\<rparr>
   \<and> fst (POST ask (calm\<lparr>ratelimit_result := Inr \<lparr>success = False\<rparr>,
                         findUnique_result := Inl (Error ''database unreachable'')\<rparr>))
       = Some (NextResponse ''Internal Error'' 500)"
  by (simp add: concrete_defs)

section \<open>The repetition signal\<close>

text \<open>
  C9. The repetition signal is computed and not used: the rest of the handler, from the
  point where \<open>isRepetitive\<close> is in scope, makes the same calls (the same prompt to the
  generation client, the same writes) and ends with the same outcome for both values of
  the signal, and the admitted request is that rest with either value.
\<close>

theorem repetition_signal_unused:
  "POST_memory isRepetitive lastResponse chatId user prompt companion recentMessages w
     = POST_memory isRepetitive' lastResponse chatId user prompt companion recentMessages w
   \<and> POST_admitted chatId user prompt companion w
     = after [MessageCreate prompt Role_user (user_id user) (companion_id companion)]
         (POST_memory isRepetitive
            (case messages companion of [] \<Rightarrow> [] | newest # older \<Rightarrow> content newest)
            chatId user prompt companion (messages companion) w)"
  by (simp add: POST_admitted_def POST_memory_def Let_def)

end
